theory Spec2Isabelle
  imports Complex_Main
begin

section \<open>Python values and exceptions\<close>

text \<open>
  The scripts are Python over numpy arrays. Numbers are modelled in exact arithmetic:
  a finite Python or numpy float is a \<open>real\<close>, a Python int an \<open>int\<close>. Rounding is outside
  this model; every concrete input used below consists of integers, halves and powers of
  two, which binary floating point represents and combines exactly. Infinities and NaN are
  modelled where Python turns them into an exception, which is at \<open>int()\<close> in
  \<open>coords2px\<close>; everywhere else they are outside the model.

  An exception is a value of type \<open>error\<close>, and a computation that may raise returns
  \<open>error + 'a\<close> with \<open>Inl\<close> for the exception. The first six constructors are the Python
  exceptions the modelled code can raise; the last two are the error names of the
  specification's taxonomy, which no line of the source defines or raises.
\<close>

datatype error =
    ZeroDivisionError
  | OverflowError
  | TypeError
  | IndexError
  | ValueError
  | AttributeError
  | InvalidTransformError
  | EmptyPopulationError

text \<open>Python's \<open>int(x)\<close> on a finite float truncates toward zero.\<close>

definition py_int :: "real \<Rightarrow> int" where
  "py_int x = (if x < 0 then \<lceil>x\<rceil> else \<lfloor>x\<rfloor>)"

text \<open>A Python float: a finite number, an infinity or NaN.\<close>

datatype pyfloat = Finite real | PosInf | NegInf | NaN

text \<open>
  A double-precision operation whose exact result has magnitude \<open>2^1024 - 2^970\<close> or more
  returns an infinity (the largest finite double is \<open>2^1024 - 2^971\<close>, and the midpoint
  rounds away from it). Below that magnitude the model keeps the exact result.
\<close>

definition overflow_threshold :: real where
  "overflow_threshold = 2 ^ 1024 - 2 ^ 970"

definition float_result :: "real \<Rightarrow> pyfloat" where
  "float_result r =
     (if overflow_threshold \<le> r then PosInf
      else if r \<le> - overflow_threshold then NegInf
      else Finite r)"

text \<open>Python's \<open>a - b\<close> on floats: never an exception.\<close>

fun float_sub :: "pyfloat \<Rightarrow> pyfloat \<Rightarrow> pyfloat" where
  "float_sub NaN b = NaN"
| "float_sub a NaN = NaN"
| "float_sub PosInf PosInf = NaN"
| "float_sub PosInf b = PosInf"
| "float_sub NegInf NegInf = NaN"
| "float_sub NegInf b = NegInf"
| "float_sub (Finite x) PosInf = NegInf"
| "float_sub (Finite x) NegInf = PosInf"
| "float_sub (Finite x) (Finite y) = float_result (x - y)"

text \<open>
  Python's \<open>a / b\<close> on floats for a finite divisor: \<open>ZeroDivisionError\<close> for a zero
  divisor, whatever the dividend; otherwise a float, infinite when the quotient
  overflows.
\<close>

definition float_truediv :: "pyfloat \<Rightarrow> real \<Rightarrow> error + pyfloat" where
  "float_truediv a b =
     (if b = 0 then Inl ZeroDivisionError
      else Inr (case a of
                  Finite x \<Rightarrow> float_result (x / b)
                | PosInf \<Rightarrow> if 0 < b then PosInf else NegInf
                | NegInf \<Rightarrow> if 0 < b then NegInf else PosInf
                | NaN \<Rightarrow> NaN))"

text \<open>
  Python's \<open>int(a)\<close> on a float: \<open>OverflowError\<close> for an infinity, \<open>ValueError\<close> for NaN,
  truncation otherwise.
\<close>

definition py_int_of_float :: "pyfloat \<Rightarrow> error + int" where
  "py_int_of_float a =
     (case a of
        Finite x \<Rightarrow> Inr (py_int x)
      | PosInf \<Rightarrow> Inl OverflowError
      | NegInf \<Rightarrow> Inl OverflowError
      | NaN \<Rightarrow> Inl ValueError)"


section \<open>Geographic transform (MetaFormatting/InsarFormatting.py)\<close>

text \<open>
  A GDAL geotransform is the 6-tuple returned by \<open>GetGeoTransform()\<close>; the field \<open>gt\<close>\<open>i\<close>
  is \<open>tnsf[i]\<close>. The code reads entries 0 (left), 1 (dx), 3 (top) and 5 (dy).
\<close>

record geotransform =
  gt0 :: real
  gt1 :: real
  gt2 :: real
  gt3 :: real
  gt4 :: real
  gt5 :: real

text \<open>\<open>px2coords(tnsf,px,py)\<close>, lines 24-29.\<close>

definition px2coords :: "geotransform \<Rightarrow> real \<Rightarrow> real \<Rightarrow> real \<times> real" where
  "px2coords tnsf px py =
     (let left = gt0 tnsf; dx = gt1 tnsf;
          top = gt3 tnsf; dy = gt5 tnsf;
          xcoord = left + px * dx;
          ycoord = top + py * dy
      in (xcoord, ycoord))"

text \<open>
  \<open>coords2px(tnsf,lon,lat)\<close>, lines 32-37, for any float coordinates and a transform
  with finite entries. The column is computed from \<open>lon - left\<close>, the row from
  \<open>top - lat\<close>. Each division raises on a zero step and each \<open>int()\<close> raises on a quotient
  that is infinite or NaN; the column's statement runs first.
\<close>

definition coords2px :: "geotransform \<Rightarrow> pyfloat \<Rightarrow> pyfloat \<Rightarrow> error + (int \<times> int)" where
  "coords2px tnsf lon lat =
     (let left = gt0 tnsf; dx = gt1 tnsf;
          top = gt3 tnsf; dy = gt5 tnsf
      in case float_truediv (float_sub lon (Finite left)) dx of
           Inl e \<Rightarrow> Inl e
         | Inr qx \<Rightarrow>
             (case py_int_of_float qx of
                Inl e \<Rightarrow> Inl e
              | Inr px \<Rightarrow>
                  (case float_truediv (float_sub (Finite top) lat) dy of
                     Inl e \<Rightarrow> Inl e
                   | Inr qy \<Rightarrow>
                       (case py_int_of_float qy of
                          Inl e \<Rightarrow> Inl e
                        | Inr py \<Rightarrow> Inr (px, py)))))"






text \<open>A north-up transform with unit pixels and origin \<open>(0, 0)\<close>.\<close>

definition north_up :: geotransform where
  "north_up = \<lparr> gt0 = 0, gt1 = 1, gt2 = 0, gt3 = 0, gt4 = 0, gt5 = - 1 \<rparr>"







section \<open>Image statistics (MapShow.py)\<close>

subsection \<open>Command-line options\<close>

text \<open>
  An attribute of the argparse namespace is a dynamically typed Python value. The script
  tests such values for truth (\<open>if inpt.background:\<close>): \<open>None\<close>, the empty string and
  zero are false.
\<close>

datatype pyval = PyNone | PyStr string | PyFloat real

fun truthy :: "pyval \<Rightarrow> bool" where
  "truthy PyNone = False"
| "truthy (PyStr s) = (s \<noteq> [])"
| "truthy (PyFloat x) = (x \<noteq> 0)"

text \<open>
  The namespace \<open>inpt\<close>, restricted to the options that the statistics read (lines
  28-32 and 36). \<open>--vmin\<close> and \<open>--vmax\<close> are floats or \<open>None\<close>, \<open>--pctmin\<close> and \<open>--pctmax\<close>
  floats, \<open>--nbins\<close> an int. The band index, the downsampling factor and the plotting
  switches do not enter the statistics. Runs with \<open>--verbose\<close> execute the same
  assignments and in addition format and print values, which can end the run early but
  cannot change a computed value; the model is of the assignments.
\<close>

record inpt =
  inpt_vmin :: "real option"
  inpt_vmax :: "real option"
  inpt_pctmin :: real
  inpt_pctmax :: real
  inpt_background :: pyval
  inpt_nbins :: int

text \<open>\<open>createParser\<close>: the defaults of lines 28-32 and 36.\<close>

definition createParser :: inpt where
  "createParser = \<lparr> inpt_vmin = None, inpt_vmax = None, inpt_pctmin = 0, inpt_pctmax = 100,
                     inpt_background = PyNone, inpt_nbins = 50 \<rparr>"

text \<open>
  One option of the command line after argparse has applied the option's \<open>type=\<close>:
  \<open>float\<close> for the bounds and percentages, \<open>int\<close> for the bin count. The background
  option (line 32) declares no type, so its value stays the string that was typed.
\<close>

datatype arg =
    Arg_vmin real
  | Arg_vmax real
  | Arg_pctmin real
  | Arg_pctmax real
  | Arg_background string
  | Arg_nbins int

fun store_arg :: "arg \<Rightarrow> inpt \<Rightarrow> inpt" where
  "store_arg (Arg_vmin v) ns = ns\<lparr>inpt_vmin := Some v\<rparr>"
| "store_arg (Arg_vmax v) ns = ns\<lparr>inpt_vmax := Some v\<rparr>"
| "store_arg (Arg_pctmin q) ns = ns\<lparr>inpt_pctmin := q\<rparr>"
| "store_arg (Arg_pctmax q) ns = ns\<lparr>inpt_pctmax := q\<rparr>"
| "store_arg (Arg_background s) ns = ns\<lparr>inpt_background := PyStr s\<rparr>"
| "store_arg (Arg_nbins k) ns = ns\<lparr>inpt_nbins := k\<rparr>"

text \<open>\<open>cmdParser\<close>: each option overwrites its default, a later occurrence an earlier one.\<close>

definition cmdParser :: "arg list \<Rightarrow> inpt" where
  "cmdParser iargs = fold store_arg iargs createParser"


subsection \<open>Arrays and the library functions the script calls\<close>

text \<open>
  A raster band as \<open>ReadAsArray()\<close> returns it: a two-dimensional array, given as the list
  of its rows, whose samples are real numbers, single-precision complex numbers
  (\<open>numpy.complex64\<close>) or double-precision complex numbers (\<open>numpy.complex128\<close>, GDAL's
  \<open>CFloat64\<close>).
\<close>

datatype ndarray =
    RealArray "real list list"
  | Complex64Array "complex list list"
  | Complex128Array "complex list list"

text \<open>\<open>numpy.angle(z)\<close> is \<open>arctan2(z.imag, z.real)\<close>, a value in \<open>(-pi, pi]\<close>.\<close>

definition arctan2 :: "real \<Rightarrow> real \<Rightarrow> real" where
  "arctan2 y x =
     (if 0 < x then arctan (y / x)
      else if x < 0 then (if 0 \<le> y then arctan (y / x) + pi else arctan (y / x) - pi)
      else if 0 < y then pi / 2
      else if y < 0 then - pi / 2
      else 0)"

definition np_angle :: "complex \<Rightarrow> real" where
  "np_angle z = arctan2 (Im z) (Re z)"

definition np_abs :: "complex \<Rightarrow> real" where
  "np_abs z = cmod z"

text \<open>
  \<open>scipy.stats.mode(a).mode[0]\<close> for a one-dimensional array, as the scipy releases
  that return the mode as an array compute it: a loop over the sorted distinct values
  that replaces the candidate only on a strictly larger count. An empty input gives an
  empty mode array, whose element 0 does not exist.
\<close>

definition scipy_mode :: "real list \<Rightarrow> error + real" where
  "scipy_mode a =
     (if a = [] then Inl IndexError
      else Inr (fst (fold (\<lambda>score (oldmostfreq, oldcounts).
                             (let counts = count_list a score
                              in if counts > oldcounts then (score, counts)
                                 else (oldmostfreq, oldcounts)))
                          (sort (remdups a)) (0, 0))))"

text \<open>
  \<open>img == background\<close>. Against a number the comparison is elementwise. Against a
  string no sample compares equal; numpy releases differ in the shape of that answer,
  which the flag \<open>elementwise\<close> selects: an array of \<open>False\<close> (numpy 1.25 and later) or the
  Python scalar \<open>False\<close> (earlier releases).
\<close>

datatype np_mask = MaskArray "bool list list" | MaskScalar bool

definition np_equal :: "bool \<Rightarrow> real list list \<Rightarrow> pyval \<Rightarrow> np_mask" where
  "np_equal elementwise img background =
     (case background of
        PyFloat v \<Rightarrow> MaskArray (map (map (\<lambda>x. x = v)) img)
      | _ \<Rightarrow> (if elementwise then MaskArray (map (map (\<lambda>x. False)) img)
              else MaskScalar False))"

text \<open>
  \<open>numpy.percentile(a, q)\<close> for one percentage, with the default linear interpolation
  between the two order statistics around the position \<open>q/100 * (n - 1)\<close>.
\<close>

definition percentile1 :: "real list \<Rightarrow> real \<Rightarrow> real" where
  "percentile1 a q =
     (let s = sort a; n = length s;
          h = q / 100 * real (n - 1);
          lo = nat \<lfloor>h\<rfloor>;
          hi = min (lo + 1) (n - 1)
      in s ! lo + (h - real lo) * (s ! hi - s ! lo))"

text \<open>
  \<open>numpy.percentile(a, (q1, q2))\<close>: a percentage outside \<open>[0, 100]\<close> is rejected with
  \<open>ValueError\<close> before the data is looked at; an empty array has no order statistic and
  the lookup fails with \<open>IndexError\<close>.
\<close>

definition np_percentile :: "real list \<Rightarrow> real \<times> real \<Rightarrow> error + (real \<times> real)" where
  "np_percentile a q =
     (case q of (q1, q2) \<Rightarrow>
        if \<not> (0 \<le> q1 \<and> q1 \<le> 100 \<and> 0 \<le> q2 \<and> q2 \<le> 100) then Inl ValueError
        else if a = [] then Inl IndexError
        else Inr (percentile1 a q1, percentile1 a q2))"

text \<open>
  \<open>numpy.histogram(a, bins=n)\<close> for an integer \<open>n\<close>. The outer edges are the minimum and
  maximum of the data, \<open>(0, 1)\<close> for empty data, widened by one half on each side when
  they coincide. The edges are \<open>n + 1\<close> equally spaced points. Each sample within the
  outer edges is counted in the bin of index \<open>int((x - first) * n / (last - first))\<close>,
  the right outer edge in the last bin.
\<close>

definition outer_edges :: "real list \<Rightarrow> real \<times> real" where
  "outer_edges a =
     (if a = [] then (0, 1)
      else (let first_edge = Min (set a); last_edge = Max (set a)
            in if first_edge = last_edge then (first_edge - 1 / 2, last_edge + 1 / 2)
               else (first_edge, last_edge)))"

definition bin_index :: "real \<Rightarrow> real \<Rightarrow> nat \<Rightarrow> real \<Rightarrow> nat" where
  "bin_index first_edge last_edge n x =
     (let i = nat (py_int ((x - first_edge) * (real n / (last_edge - first_edge))))
      in if i = n then i - 1 else i)"

definition np_histogram :: "real list \<Rightarrow> int \<Rightarrow> error + (nat list \<times> real list)" where
  "np_histogram a bins =
     (if bins < 1 then Inl ValueError
      else (let n = nat bins;
                (first_edge, last_edge) = outer_edges a;
                bin_edges = map (\<lambda>i. first_edge + real i * ((last_edge - first_edge) / real n))
                              [0..<n + 1];
                keep = filter (\<lambda>x. first_edge \<le> x \<and> x \<le> last_edge) a;
                indices = map (bin_index first_edge last_edge n) keep;
                counts = map (\<lambda>i. count_list indices i) [0..<n]
            in Inr (counts, bin_edges)))"


subsection \<open>The script\<close>

text \<open>
  Lines 77-80. \<open>img[0,0]\<close> raises \<open>IndexError\<close> on an array without rows or without
  columns. Only a sample that is an instance of \<open>numpy.complex64\<close> makes the script
  assign \<open>imgMag\<close> and replace \<open>img\<close> by the phase; otherwise \<open>img\<close> is unchanged and
  \<open>imgMag\<close> stays unassigned (\<open>None\<close> here).
\<close>

definition no_sample :: "'a list list \<Rightarrow> bool" where
  "no_sample rows = (case rows of [] \<Rightarrow> True | r # _ \<Rightarrow> r = [])"

definition complex_decomposition :: "ndarray \<Rightarrow> error + (ndarray \<times> real list list option)" where
  "complex_decomposition img =
     (case img of
        RealArray a \<Rightarrow> if no_sample a then Inl IndexError else Inr (RealArray a, None)
      | Complex64Array c \<Rightarrow>
          if no_sample c then Inl IndexError
          else (let imgMag = map (map np_abs) c;
                    img' = map (map np_angle) c
                in Inr (RealArray img', Some imgMag))
      | Complex128Array c \<Rightarrow>
          if no_sample c then Inl IndexError else Inr (Complex128Array c, None))"

text \<open>
  Line 85: the first row, the last row, the first column and the last column,
  concatenated (each corner occurs twice). Indexing row 0 of an array without rows
  raises \<open>IndexError\<close>; an array without columns has no edge values.
\<close>

definition edgeValues :: "real list list \<Rightarrow> error + real list" where
  "edgeValues img =
     (if img = [] then Inl IndexError
      else if hd img = [] then Inr []
      else Inr (hd img @ last img @ map hd img @ map last img))"

text \<open>Lines 83-89: the variable \<open>background\<close>.\<close>

definition background_value :: "inpt \<Rightarrow> real list list \<Rightarrow> error + pyval" where
  "background_value inpt img =
     (if inpt_background inpt = PyStr ''auto'' then
        (case edgeValues img of
           Inl e \<Rightarrow> Inl e
         | Inr ev \<Rightarrow> (case scipy_mode ev of Inl e \<Rightarrow> Inl e | Inr v \<Rightarrow> Inr (PyFloat v)))
      else Inr (inpt_background inpt))"

text \<open>
  Lines 104-109: the image as one column, without the samples that the mask marks.
  The Python scalar \<open>False\<close> has no \<open>reshape\<close>, so line 108 raises \<open>AttributeError\<close> on it.
\<close>

definition ignore_background :: "real list list \<Rightarrow> np_mask option \<Rightarrow> error + real list" where
  "ignore_background img mask0 =
     (let imgArray = concat img
      in case mask0 of
           None \<Rightarrow> Inr imgArray
         | Some (MaskScalar b) \<Rightarrow> Inl AttributeError
         | Some (MaskArray m) \<Rightarrow>
             (let maskArray = concat m
              in Inr (map fst (filter (\<lambda>(x, masked). masked = False) (zip imgArray maskArray)))))"

text \<open>Lines 112-115: the absolute bounds, each applied when its option is true.\<close>

definition ignore_outliers :: "inpt \<Rightarrow> real list \<Rightarrow> real list" where
  "ignore_outliers inpt imgArray =
     (let imgArray1 = (case inpt_vmin inpt of
                         Some v \<Rightarrow> if v \<noteq> 0 then filter (\<lambda>x. x \<ge> v) imgArray else imgArray
                       | None \<Rightarrow> imgArray);
          imgArray2 = (case inpt_vmax inpt of
                         Some v \<Rightarrow> if v \<noteq> 0 then filter (\<lambda>x. x \<le> v) imgArray1 else imgArray1
                       | None \<Rightarrow> imgArray1)
      in imgArray2)"

text \<open>
  The statistics population before the percentages are taken: lines 83-115 on the real
  working array \<open>img\<close>. The mask exists only when the background option is true
  (lines 91-93).
\<close>

definition population :: "bool \<Rightarrow> inpt \<Rightarrow> real list list \<Rightarrow> error + real list" where
  "population elementwise inpt img =
     (case background_value inpt img of
        Inl e \<Rightarrow> Inl e
      | Inr background \<Rightarrow>
          (let mask0 = (if truthy (inpt_background inpt)
                       then Some (np_equal elementwise img background) else None)
           in case ignore_background img mask0 of
                Inl e \<Rightarrow> Inl e
              | Inr imgArray \<Rightarrow> Inr (ignore_outliers inpt imgArray)))"

text \<open>The variables that lines 83-124 leave behind.\<close>

record statistics =
  out_background :: pyval
  out_mask :: "np_mask option"
  out_imgArray :: "real list"
  out_vmin :: real
  out_vmax :: real
  out_Hvals :: "nat list"
  out_Hedges :: "real list"
  out_Hcntrs :: "real list"

text \<open>
  Lines 83-124 as a function of the options and the real working array. Line 124
  averages each edge with its successor.
\<close>

definition image_statistics :: "bool \<Rightarrow> inpt \<Rightarrow> real list list \<Rightarrow> error + statistics" where
  "image_statistics elementwise inpt img =
     (case background_value inpt img of
        Inl e \<Rightarrow> Inl e
      | Inr background \<Rightarrow>
          (let mask0 = (if truthy (inpt_background inpt)
                       then Some (np_equal elementwise img background) else None)
           in case ignore_background img mask0 of
                Inl e \<Rightarrow> Inl e
              | Inr imgArray0 \<Rightarrow>
                  (let imgArray1 = ignore_outliers inpt imgArray0
                   in case np_percentile imgArray1 (inpt_pctmin inpt, inpt_pctmax inpt) of
                        Inl e \<Rightarrow> Inl e
                      | Inr (vmin, vmax) \<Rightarrow>
                          (let imgArray2 = filter (\<lambda>x. x \<ge> vmin) imgArray1;
                               imgArray3 = filter (\<lambda>x. x \<le> vmax) imgArray2
                           in case np_histogram imgArray3 (inpt_nbins inpt) of
                                Inl e \<Rightarrow> Inl e
                              | Inr (Hvals, Hedges) \<Rightarrow>
                                  (let Hcntrs = map (\<lambda>(a, b). (a + b) / 2)
                                                  (zip (butlast Hedges) (tl Hedges))
                                   in Inr \<lparr> out_background = background, out_mask = mask0,
                                            out_imgArray = imgArray3,
                                            out_vmin = vmin, out_vmax = vmax,
                                            out_Hvals = Hvals, out_Hedges = Hedges,
                                            out_Hcntrs = Hcntrs \<rparr>)))))"

text \<open>
  The script from the loaded band to the histogram. A working array that is still
  complex after lines 77-80 is outside the real-valued statistics modelled here; such a
  run ends in an exception at the latest when the image is drawn (line 146), since the
  plotting library rejects complex image data with \<open>TypeError\<close>.
\<close>

definition MapShow_main ::
  "bool \<Rightarrow> inpt \<Rightarrow> ndarray \<Rightarrow> error + (statistics \<times> real list list option)" where
  "MapShow_main elementwise inpt band =
     (case complex_decomposition band of
        Inl e \<Rightarrow> Inl e
      | Inr (img, imgMag) \<Rightarrow>
          (case img of
             RealArray a \<Rightarrow>
               (case image_statistics elementwise inpt a of
                  Inl e \<Rightarrow> Inl e
                | Inr s \<Rightarrow> Inr (s, imgMag))
           | _ \<Rightarrow> Inl TypeError))"

text \<open>The 3-by-3 array with a single sample that differs from its surroundings.\<close>

definition centre_sample :: "real list list" where
  "centre_sample = [[5, 5, 5], [5, 1, 5], [5, 5, 5]]"

text \<open>A 2-by-2 array with the value 5 on its diagonal, the most frequent edge value.\<close>

definition two_of_four :: "real list list" where
  "two_of_four = [[5, 2], [4, 5]]"

text \<open>The command line \<open>--background auto --pctmax 50 --nbins 2\<close>.\<close>

definition half_range :: inpt where
  "half_range = cmdParser [Arg_background ''auto'', Arg_pctmax 50, Arg_nbins 2]"

text \<open>A 2-by-2 array with samples on both sides of zero.\<close>

definition zero_and_one :: "real list list" where
  "zero_and_one = [[- 1, 0], [0, 1]]"

text \<open>A 4-by-3 array whose border is uniformly 9 and whose interior varies.\<close>

definition framed :: "real list list" where
  "framed = [[9, 9, 9], [9, 1, 9], [9, 2, 9], [9, 9, 9]]"

text \<open>A 2-by-2 array whose samples are all equal.\<close>

definition uniform :: "real list list" where
  "uniform = [[7, 7], [7, 7]]"

text \<open>A single row with two different samples.\<close>

definition one_two :: "real list list" where
  "one_two = [[1, 2]]"


section \<open>Round trip between pixels and coordinates\<close>

lemma py_int_of_int: "py_int (of_int k) = k"
  by (simp add: py_int_def)

lemma py_int_minus_of_int: "py_int (- of_int k) = - k"
  using py_int_of_int [of "- k"] by simp

lemma py_int_minus_one: "py_int (- 1) = - 1"
  using py_int_of_int [of "- 1"] by simp

lemma py_int_zero: "py_int 0 = 0"
  by (simp add: py_int_def)

lemma float_result_Finite: "\<bar>r\<bar> \<le> 2 ^ 1023 \<Longrightarrow> float_result r = Finite r"
  by (simp add: float_result_def overflow_threshold_def abs_le_iff)



lemma coords2px_px2coords:
  assumes "gt1 tnsf \<noteq> 0" and "gt5 tnsf \<noteq> 0"
    and "\<bar>of_int px * gt1 tnsf\<bar> \<le> 2 ^ 1023" and "\<bar>real_of_int px\<bar> \<le> 2 ^ 1023"
    and "\<bar>of_int py * gt5 tnsf\<bar> \<le> 2 ^ 1023" and "\<bar>real_of_int py\<bar> \<le> 2 ^ 1023"
  shows "coords2px tnsf (Finite (fst (px2coords tnsf (of_int px) (of_int py))))
           (Finite (snd (px2coords tnsf (of_int px) (of_int py)))) = Inr (px, - py)"
proof -
  have dx: "gt0 tnsf + of_int px * gt1 tnsf - gt0 tnsf = of_int px * gt1 tnsf"
    by simp
  have x: "of_int px * gt1 tnsf / gt1 tnsf = of_int px"
    using assms(1) by simp
  have dy: "gt3 tnsf - (gt3 tnsf + of_int py * gt5 tnsf) = - (of_int py * gt5 tnsf)"
    by simp
  have y: "- (of_int py * gt5 tnsf) / gt5 tnsf = - of_int py"
    using assms(2) by simp
  have fx: "float_result (of_int px * gt1 tnsf) = Finite (of_int px * gt1 tnsf)"
    using assms(3) by (rule float_result_Finite)
  have fy: "float_result (- (of_int py * gt5 tnsf)) = Finite (- (of_int py * gt5 tnsf))"
    using assms(5) by (intro float_result_Finite) simp
  have qx: "float_result (real_of_int px) = Finite (of_int px)"
    using assms(4) by (rule float_result_Finite)
  have qy: "float_result (- real_of_int py) = Finite (- of_int py)"
    using assms(6) by (intro float_result_Finite) simp
  show ?thesis
    using assms(1,2)
    by (simp add: coords2px_def px2coords_def float_truediv_def py_int_of_float_def Let_def
                  dx dy fx fy x y qx qy py_int_of_int py_int_minus_of_int)
qed

text \<open>
  C1. The claim is that mapping integer pixel indices to coordinates and back returns the
  same indices whenever both steps are nonzero. The code returns the column unchanged but
  the row negated: on the north-up unit transform, pixel \<open>(0, 1)\<close> has coordinates
  \<open>(0, -1)\<close> and \<open>coords2px\<close> maps these to pixel \<open>(0, -1)\<close>.
\<close>

theorem C1_round_trip_negates_row:
  "px2coords north_up 0 1 = (0, - 1) \<and>
   coords2px north_up (Finite 0) (Finite (- 1)) = Inr (0, - 1) \<and>
   coords2px north_up (Finite (fst (px2coords north_up 0 1)))
     (Finite (snd (px2coords north_up 0 1))) \<noteq> Inr (0, 1)"
  by (simp add: px2coords_def coords2px_def north_up_def float_truediv_def py_int_of_float_def
                float_result_Finite py_int_minus_one py_int_zero)

section \<open>Extent\<close>






section \<open>Error states of the geographic transform\<close>














section \<open>Histogram\<close>

lemma sum_count_list_upt:
  assumes "\<forall>j\<in>set js. j < n"
  shows "sum_list (map (count_list js) [0..<n]) = length js"
  using assms
proof (induction js)
  case Nil
  then show ?case by simp
next
  case (Cons j js)
  then have j: "j < n" and rest: "\<forall>k\<in>set js. k < n" by simp_all
  have "sum_list (map (count_list (j # js)) [0..<n])
        = (\<Sum>i = 0..<n. count_list js i + (if j = i then 1 else 0))"
    by (simp add: interv_sum_list_conv_sum_set_nat cong: if_cong) (rule sum.cong, auto)
  also have "\<dots> = (\<Sum>i = 0..<n. count_list js i) + (\<Sum>i = 0..<n. if j = i then 1 else 0)"
    by (simp add: sum.distrib)
  also have "(\<Sum>i = 0..<n. if j = i then 1 else 0) = (1::nat)"
    using j by simp
  also have "(\<Sum>i = 0..<n. count_list js i) = sum_list (map (count_list js) [0..<n])"
    by (simp add: interv_sum_list_conv_sum_set_nat)
  finally show ?case using Cons.IH [OF rest] by simp
qed

lemma outer_edges_lt: "outer_edges a = (lo, hi) \<Longrightarrow> lo < hi"
proof (cases "a = []")
  case True
  assume "outer_edges a = (lo, hi)"
  with True show ?thesis by (simp add: outer_edges_def)
next
  case False
  assume oe: "outer_edges a = (lo, hi)"
  from False have "Min (set a) \<le> Max (set a)" by simp
  then have "Min (set a) \<noteq> Max (set a) \<Longrightarrow> Min (set a) < Max (set a)" by linarith
  with oe False show ?thesis
    by (auto simp: outer_edges_def Let_def split: if_splits)
qed

lemma outer_edges_bounds:
  assumes "outer_edges a = (lo, hi)" and "x \<in> set a"
  shows "lo \<le> x \<and> x \<le> hi"
proof -
  from assms(2) have ne: "a \<noteq> []" by auto
  from assms(2) have "Min (set a) \<le> x" "x \<le> Max (set a)" by simp_all
  moreover define m where "m = Min (set a)"
  moreover define M where "M = Max (set a)"
  moreover have "outer_edges a = (if m = M then (m - 1 / 2, M + 1 / 2) else (m, M))"
    using ne by (simp add: outer_edges_def Let_def m_def M_def)
  with assms(1) have "lo \<le> m \<and> M \<le> hi"
    by (auto split: if_splits)
  ultimately show ?thesis by linarith
qed

lemma bin_index_less:
  assumes "lo < hi" and "lo \<le> x" and "x \<le> hi" and "0 < n"
  shows "bin_index lo hi n x < n"
proof -
  define y where "y = (x - lo) * (real n / (hi - lo))"
  have y0: "0 \<le> y" using assms by (simp add: y_def)
  have "(x - lo) * (real n / (hi - lo)) \<le> (hi - lo) * (real n / (hi - lo))"
    using assms by (intro mult_right_mono) simp_all
  then have yn: "y \<le> real n" using assms by (simp add: y_def)
  from y0 have "py_int y = \<lfloor>y\<rfloor>" by (simp add: py_int_def)
  moreover from yn have "\<lfloor>y\<rfloor> \<le> int n" by (simp add: floor_le_iff)
  ultimately have "nat (py_int y) \<le> n" by simp
  with assms(4) show ?thesis
    by (auto simp: bin_index_def Let_def y_def)
qed

lemma np_histogram_Inr:
  assumes "np_histogram a bins = Inr (counts, edges)"
  shows "sum_list counts = length a"
    and "length counts = nat bins"
    and "length edges = length counts + 1"
    and "1 \<le> bins"
proof -
  from assms have b: "1 \<le> bins" by (auto simp: np_histogram_def split: if_splits)
  obtain lo hi where oe: "outer_edges a = (lo, hi)" by (cases "outer_edges a")
  have lt: "lo < hi" using oe by (rule outer_edges_lt)
  have keep: "filter (\<lambda>x. lo \<le> x \<and> x \<le> hi) a = a"
    using outer_edges_bounds [OF oe] by (simp add: filter_id_conv)
  from assms b oe keep
  have c: "counts = map (count_list (map (bin_index lo hi (nat bins)) a)) [0..<nat bins]"
    and e: "edges = map (\<lambda>i. lo + real i * ((hi - lo) / real (nat bins))) [0..<nat bins + 1]"
    by (auto simp: np_histogram_def Let_def)
  have "\<forall>j\<in>set (map (bin_index lo hi (nat bins)) a). j < nat bins"
    using bin_index_less [OF lt] outer_edges_bounds [OF oe] b by auto
  from sum_count_list_upt [OF this] show "sum_list counts = length a" by (simp add: c)
  show "length counts = nat bins" by (simp add: c)
  show "length edges = length counts + 1" by (simp add: c e)
  show "1 \<le> bins" by (rule b)
qed

lemma np_histogram_total: "1 \<le> bins \<Longrightarrow> \<exists>counts edges. np_histogram a bins = Inr (counts, edges)"
  by (cases "outer_edges a") (simp add: np_histogram_def Let_def)

lemma np_histogram_error: "np_histogram a bins = Inl e \<Longrightarrow> e = ValueError \<and> bins < 1"
  by (cases "outer_edges a") (auto simp: np_histogram_def Let_def split: if_splits)

lemma centres_nth:
  assumes "i < length (zip (butlast es) (tl es))"
  shows "map (\<lambda>(a, b). (a + b) / 2) (zip (butlast es) (tl es)) ! i = (es ! i + es ! (i + 1)) / (2::real)"
  using assms by (simp add: nth_butlast nth_tl)


section \<open>Percentages, masking and the structure of the statistics\<close>

lemma sort_nth_bounds:
  assumes "x \<in> set a"
  shows "sort a ! 0 \<le> x" and "x \<le> sort a ! (length a - 1)"
proof -
  from assms have "x \<in> set (sort a)" by simp
  then obtain k where k: "k < length (sort a)" "sort a ! k = x"
    unfolding in_set_conv_nth by blast
  have s: "sorted (sort a)" by simp
  from sorted_nth_mono [OF s, of 0 k] k show "sort a ! 0 \<le> x" by simp
  from sorted_nth_mono [OF s, of k "length a - 1"] k show "x \<le> sort a ! (length a - 1)"
    by simp
qed

lemma percentile1_0: "percentile1 a 0 = sort a ! 0"
  by (simp add: percentile1_def Let_def)

lemma percentile1_100: "percentile1 a 100 = sort a ! (length a - 1)"
  by (simp add: percentile1_def Let_def)

lemma percentile1_0_Min:
  assumes "a \<noteq> []"
  shows "percentile1 a 0 = Min (set a)"
proof -
  from assms have "0 < length (sort a)" by simp
  then have "sort a ! 0 \<in> set (sort a)" by (rule nth_mem)
  then have "sort a ! 0 \<in> set a" by simp
  with sort_nth_bounds(1) [of _ a] show ?thesis
    by (auto simp: percentile1_0 intro!: Min_eqI [symmetric])
qed

lemma percentile1_100_Max:
  assumes "a \<noteq> []"
  shows "percentile1 a 100 = Max (set a)"
proof -
  from assms have "length a - 1 < length (sort a)" by (cases a) simp_all
  then have "sort a ! (length a - 1) \<in> set (sort a)" by (rule nth_mem)
  then have "sort a ! (length a - 1) \<in> set a" by simp
  with sort_nth_bounds(2) [of _ a] show ?thesis
    by (auto simp: percentile1_100 intro!: Max_eqI [symmetric])
qed

lemma full_range_filter:
  "filter (\<lambda>x. x \<le> percentile1 a 100) (filter (\<lambda>x. x \<ge> percentile1 a 0) a) = a"
  using sort_nth_bounds [of _ a]
  by (simp add: percentile1_0 percentile1_100 filter_id_conv)

lemma np_percentile_Inr:
  "np_percentile a (q1, q2) = Inr (v1, v2) \<longleftrightarrow>
     0 \<le> q1 \<and> q1 \<le> 100 \<and> 0 \<le> q2 \<and> q2 \<le> 100 \<and> a \<noteq> [] \<and>
     v1 = percentile1 a q1 \<and> v2 = percentile1 a q2"
  by (auto simp: np_percentile_def)

lemma np_percentile_empty:
  "0 \<le> q1 \<Longrightarrow> q1 \<le> 100 \<Longrightarrow> 0 \<le> q2 \<Longrightarrow> q2 \<le> 100 \<Longrightarrow> np_percentile [] (q1, q2) = Inl IndexError"
  by (simp add: np_percentile_def)

lemma np_percentile_error:
  "np_percentile a q = Inl e \<Longrightarrow> e = ValueError \<or> e = IndexError \<and> a = []"
  by (auto simp: np_percentile_def split: prod.splits if_splits)

lemma ignore_outliers_filter:
  "ignore_outliers inpt xs =
     filter (\<lambda>x. (case inpt_vmin inpt of Some v \<Rightarrow> v = 0 \<or> v \<le> x | None \<Rightarrow> True) \<and>
                 (case inpt_vmax inpt of Some v \<Rightarrow> v = 0 \<or> x \<le> v | None \<Rightarrow> True)) xs"
  by (auto simp: ignore_outliers_def Let_def split: option.splits intro: filter_cong)

lemma unmasked_filter:
  "map fst (filter (\<lambda>(x, masked). \<not> masked) (zip xs (map f xs))) = filter (\<lambda>x. \<not> f x) xs"
  by (induction xs) auto

lemma ignore_background_MaskArray:
  "ignore_background img (Some (MaskArray (map (map f) img))) = Inr (filter (\<lambda>x. \<not> f x) (concat img))"
  by (simp add: ignore_background_def Let_def map_concat [symmetric] unmasked_filter)

lemma ignore_background_np_equal:
  "ignore_background img (Some (np_equal elementwise img background)) =
     (case background of
        PyFloat v \<Rightarrow> Inr (filter (\<lambda>x. x \<noteq> v) (concat img))
      | _ \<Rightarrow> if elementwise then Inr (concat img) else Inl AttributeError)"
proof (cases background)
  case (PyFloat v)
  then show ?thesis by (simp add: np_equal_def ignore_background_MaskArray)
next
  case PyNone
  show ?thesis
  proof (cases elementwise)
    case True
    with PyNone ignore_background_MaskArray [of img "\<lambda>x. False"] show ?thesis
      by (simp add: np_equal_def)
  next
    case False
    with PyNone show ?thesis by (simp add: np_equal_def ignore_background_def)
  qed
next
  case (PyStr s)
  show ?thesis
  proof (cases elementwise)
    case True
    with PyStr ignore_background_MaskArray [of img "\<lambda>x. False"] show ?thesis
      by (simp add: np_equal_def)
  next
    case False
    with PyStr show ?thesis by (simp add: np_equal_def ignore_background_def)
  qed
qed

text \<open>
  The statistics as a sequence of the population, the percentages, the re-filtering and
  the histogram.
\<close>

lemma image_statistics_population:
  "image_statistics elementwise inpt img =
     (case population elementwise inpt img of
        Inl e \<Rightarrow> Inl e
      | Inr pop \<Rightarrow>
          (case np_percentile pop (inpt_pctmin inpt, inpt_pctmax inpt) of
             Inl e \<Rightarrow> Inl e
           | Inr (vmin, vmax) \<Rightarrow>
               (case np_histogram (filter (\<lambda>x. x \<le> vmax) (filter (\<lambda>x. x \<ge> vmin) pop))
                       (inpt_nbins inpt) of
                  Inl e \<Rightarrow> Inl e
                | Inr (Hvals, Hedges) \<Rightarrow>
                    Inr \<lparr> out_background = projr (background_value inpt img),
                          out_mask = (if truthy (inpt_background inpt)
                                      then Some (np_equal elementwise img
                                                   (projr (background_value inpt img)))
                                      else None),
                          out_imgArray = filter (\<lambda>x. x \<le> vmax) (filter (\<lambda>x. x \<ge> vmin) pop),
                          out_vmin = vmin, out_vmax = vmax,
                          out_Hvals = Hvals, out_Hedges = Hedges,
                          out_Hcntrs = map (\<lambda>(a, b). (a + b) / 2)
                                         (zip (butlast Hedges) (tl Hedges)) \<rparr>)))"
  by (simp add: image_statistics_def population_def Let_def split: sum.splits prod.splits)

lemma image_statistics_Inr:
  assumes "image_statistics elementwise inpt img = Inr r"
  obtains pop where "population elementwise inpt img = Inr pop"
    and "np_percentile pop (inpt_pctmin inpt, inpt_pctmax inpt) = Inr (out_vmin r, out_vmax r)"
    and "out_imgArray r = filter (\<lambda>x. x \<le> out_vmax r) (filter (\<lambda>x. x \<ge> out_vmin r) pop)"
    and "np_histogram (out_imgArray r) (inpt_nbins inpt) = Inr (out_Hvals r, out_Hedges r)"
    and "out_Hcntrs r = map (\<lambda>(a, b). (a + b) / 2) (zip (butlast (out_Hedges r)) (tl (out_Hedges r)))"
  using assms unfolding image_statistics_population
  by (auto split: sum.splits prod.splits)


section \<open>Histogram invariant\<close>

lemma half_range_run:
  "image_statistics True half_range two_of_four =
     Inr \<lparr> out_background = PyFloat 5,
           out_mask = Some (MaskArray [[True, False], [False, True]]),
           out_imgArray = [2], out_vmin = 2, out_vmax = 3, out_Hvals = [0, 1],
           out_Hedges = [3 / 2, 2, 5 / 2], out_Hcntrs = [7 / 4, 9 / 4] \<rparr>"
  by code_simp

lemma population_survivors:
  assumes "population elementwise inpt img = Inr pop"
  obtains bg where "background_value inpt img = Inr bg"
    and "pop = filter (\<lambda>x. (truthy (inpt_background inpt) \<longrightarrow> PyFloat x \<noteq> bg) \<and>
                            (case inpt_vmin inpt of Some v \<Rightarrow> v = 0 \<or> v \<le> x | None \<Rightarrow> True) \<and>
                            (case inpt_vmax inpt of Some v \<Rightarrow> v = 0 \<or> x \<le> v | None \<Rightarrow> True))
                 (concat img)"
proof -
  from assms obtain bg where bg: "background_value inpt img = Inr bg"
    by (auto simp: population_def split: sum.splits)
  show ?thesis
  proof (cases "truthy (inpt_background inpt)")
    case False
    with assms bg have "pop = ignore_outliers inpt (concat img)"
      by (simp add: population_def ignore_background_def)
    with False have "pop = filter (\<lambda>x. (truthy (inpt_background inpt) \<longrightarrow> PyFloat x \<noteq> bg) \<and>
                            (case inpt_vmin inpt of Some v \<Rightarrow> v = 0 \<or> v \<le> x | None \<Rightarrow> True) \<and>
                            (case inpt_vmax inpt of Some v \<Rightarrow> v = 0 \<or> x \<le> v | None \<Rightarrow> True))
                 (concat img)"
      by (simp add: ignore_outliers_filter)
    with bg show ?thesis by (rule that)
  next
    case True
    with assms bg have *: "(case bg of
        PyFloat v \<Rightarrow> Inr (filter (\<lambda>x. x \<noteq> v) (concat img))
      | _ \<Rightarrow> if elementwise then Inr (concat img) else Inl AttributeError) \<noteq> Inl AttributeError
      \<and> pop = ignore_outliers inpt (projr (case bg of
        PyFloat v \<Rightarrow> Inr (filter (\<lambda>x. x \<noteq> v) (concat img))
      | _ \<Rightarrow> if elementwise then Inr (concat img) else Inl AttributeError))"
      by (auto simp: population_def ignore_background_np_equal split: sum.splits pyval.splits if_splits)
    with True have "pop = filter (\<lambda>x. (truthy (inpt_background inpt) \<longrightarrow> PyFloat x \<noteq> bg) \<and>
                            (case inpt_vmin inpt of Some v \<Rightarrow> v = 0 \<or> v \<le> x | None \<Rightarrow> True) \<and>
                            (case inpt_vmax inpt of Some v \<Rightarrow> v = 0 \<or> x \<le> v | None \<Rightarrow> True))
                 (concat img)"
      by (cases bg) (auto simp: ignore_outliers_filter split: if_splits intro: filter_cong)
    with bg show ?thesis by (rule that)
  qed
qed

text \<open>
  C6. Whenever the statistics are computed, the bin counts add up to the size of the
  final population, there is one more bin edge than there are bins, there is one bin
  centre for each bin, and each centre is the midpoint of the two edges of its bin. The
  number of bins is \<open>--nbins\<close>, 50 unless given.
\<close>

theorem C6_histogram_invariant:
  "(image_statistics elementwise inpt img = Inr r \<longrightarrow>
      sum_list (out_Hvals r) = length (out_imgArray r) \<and>
      length (out_Hedges r) = length (out_Hvals r) + 1 \<and>
      length (out_Hvals r) = nat (inpt_nbins inpt) \<and>
      length (out_Hcntrs r) = length (out_Hvals r) \<and>
      (\<forall>i < length (out_Hcntrs r).
         out_Hcntrs r ! i = (out_Hedges r ! i + out_Hedges r ! (i + 1)) / 2)) \<and>
   inpt_nbins createParser = 50"
proof -
  have "sum_list (out_Hvals r) = length (out_imgArray r) \<and>
      length (out_Hedges r) = length (out_Hvals r) + 1 \<and>
      length (out_Hvals r) = nat (inpt_nbins inpt) \<and>
      length (out_Hcntrs r) = length (out_Hvals r) \<and>
      (\<forall>i < length (out_Hcntrs r).
         out_Hcntrs r ! i = (out_Hedges r ! i + out_Hedges r ! (i + 1)) / 2)"
    if run: "image_statistics elementwise inpt img = Inr r"
  proof -
    from run obtain pop where
      h: "np_histogram (out_imgArray r) (inpt_nbins inpt) = Inr (out_Hvals r, out_Hedges r)"
      and c: "out_Hcntrs r = map (\<lambda>(a, b). (a + b) / 2)
                               (zip (butlast (out_Hedges r)) (tl (out_Hedges r)))"
      by (rule image_statistics_Inr)
    note hs = np_histogram_Inr [OF h]
    have len: "length (out_Hcntrs r) = length (out_Hvals r)"
      using hs(3) by (simp add: c)
    have "\<forall>i < length (out_Hcntrs r).
         out_Hcntrs r ! i = (out_Hedges r ! i + out_Hedges r ! (i + 1)) / 2"
      using centres_nth [of _ "out_Hedges r"] by (simp add: c)
    with hs len show ?thesis by simp
  qed
  moreover have "inpt_nbins createParser = 50" by (simp add: createParser_def)
  ultimately show ?thesis by blast
qed

theorem C6_histogram_invariant_witness:
  "\<exists>r. image_statistics True half_range two_of_four = Inr r \<and>
       out_imgArray r = [2] \<and> out_Hvals r = [0, 1] \<and> out_Hedges r = [3 / 2, 2, 5 / 2] \<and>
       sum_list (out_Hvals r) = length (out_imgArray r) \<and>
       length (out_Hedges r) = length (out_Hvals r) + 1 \<and>
       length (out_Hcntrs r) = length (out_Hvals r) \<and>
       out_Hcntrs r ! 0 = (out_Hedges r ! 0 + out_Hedges r ! 1) / 2 \<and>
       out_Hcntrs r ! 1 = (out_Hedges r ! 1 + out_Hedges r ! 2) / 2"
proof -
  let ?r = "\<lparr> out_background = PyFloat 5,
           out_mask = Some (MaskArray [[True, False], [False, True]]),
           out_imgArray = [2], out_vmin = 2, out_vmax = 3, out_Hvals = [0, 1],
           out_Hedges = [3 / 2, 2, 5 / 2], out_Hcntrs = [7 / 4, 9 / 4] \<rparr>"
  from C6_histogram_invariant [of True half_range two_of_four ?r] half_range_run
  have "sum_list (out_Hvals ?r) = length (out_imgArray ?r) \<and>
      length (out_Hedges ?r) = length (out_Hvals ?r) + 1 \<and>
      length (out_Hcntrs ?r) = length (out_Hvals ?r) \<and>
      (\<forall>i < length (out_Hcntrs ?r).
         out_Hcntrs ?r ! i = (out_Hedges ?r ! i + out_Hedges ?r ! (i + 1)) / 2)"
    by blast
  with half_range_run show ?thesis by simp
qed


section \<open>The percentile stage\<close>

lemma half_range_population: "population True half_range two_of_four = Inr [2, 4]"
  by code_simp

lemma two_bins_run:
  "image_statistics True (cmdParser [Arg_nbins 2]) two_of_four =
     Inr \<lparr> out_background = PyNone, out_mask = None,
           out_imgArray = [5, 2, 4, 5], out_vmin = 2, out_vmax = 5, out_Hvals = [1, 3],
           out_Hedges = [2, 7 / 2, 5], out_Hcntrs = [11 / 4, 17 / 4] \<rparr>"
  by code_simp

text \<open>
  C3. Whenever the statistics are computed, \<open>vmin\<close> and \<open>vmax\<close> are the percentiles
  \<open>pctmin\<close> and \<open>pctmax\<close> of the population that background masking and the absolute
  bounds have left: the samples of the image, in order, that are not the background
  (when the background option is true) and that lie within each bound whose option is
  true. That population is then restricted to the closed interval from \<open>vmin\<close> to \<open>vmax\<close>,
  and the histogram is the histogram of the restricted population. With the default
  percentages 0 and 100 the interval spans the minimum and the maximum and the
  restriction removes nothing.
\<close>

theorem C3_percentile_stage:
  "(image_statistics elementwise inpt img = Inr r \<longrightarrow>
      (\<exists>pop bg.
         population elementwise inpt img = Inr pop \<and>
         background_value inpt img = Inr bg \<and>
         pop = filter (\<lambda>x. (truthy (inpt_background inpt) \<longrightarrow> PyFloat x \<noteq> bg) \<and>
                            (case inpt_vmin inpt of Some v \<Rightarrow> v = 0 \<or> v \<le> x | None \<Rightarrow> True) \<and>
                            (case inpt_vmax inpt of Some v \<Rightarrow> v = 0 \<or> x \<le> v | None \<Rightarrow> True))
                 (concat img) \<and>
         out_vmin r = percentile1 pop (inpt_pctmin inpt) \<and>
         out_vmax r = percentile1 pop (inpt_pctmax inpt) \<and>
         out_imgArray r = filter (\<lambda>x. out_vmin r \<le> x \<and> x \<le> out_vmax r) pop \<and>
         np_histogram (out_imgArray r) (inpt_nbins inpt) = Inr (out_Hvals r, out_Hedges r) \<and>
         (inpt_pctmin inpt = 0 \<and> inpt_pctmax inpt = 100 \<longrightarrow>
            out_vmin r = Min (set pop) \<and> out_vmax r = Max (set pop) \<and> out_imgArray r = pop))) \<and>
   inpt_pctmin createParser = 0 \<and> inpt_pctmax createParser = 100"
proof -
  have "\<exists>pop bg.
         population elementwise inpt img = Inr pop \<and>
         background_value inpt img = Inr bg \<and>
         pop = filter (\<lambda>x. (truthy (inpt_background inpt) \<longrightarrow> PyFloat x \<noteq> bg) \<and>
                            (case inpt_vmin inpt of Some v \<Rightarrow> v = 0 \<or> v \<le> x | None \<Rightarrow> True) \<and>
                            (case inpt_vmax inpt of Some v \<Rightarrow> v = 0 \<or> x \<le> v | None \<Rightarrow> True))
                 (concat img) \<and>
         out_vmin r = percentile1 pop (inpt_pctmin inpt) \<and>
         out_vmax r = percentile1 pop (inpt_pctmax inpt) \<and>
         out_imgArray r = filter (\<lambda>x. out_vmin r \<le> x \<and> x \<le> out_vmax r) pop \<and>
         np_histogram (out_imgArray r) (inpt_nbins inpt) = Inr (out_Hvals r, out_Hedges r) \<and>
         (inpt_pctmin inpt = 0 \<and> inpt_pctmax inpt = 100 \<longrightarrow>
            out_vmin r = Min (set pop) \<and> out_vmax r = Max (set pop) \<and> out_imgArray r = pop)"
    if run: "image_statistics elementwise inpt img = Inr r"
  proof -
    from run obtain pop where
      pop: "population elementwise inpt img = Inr pop"
      and pct: "np_percentile pop (inpt_pctmin inpt, inpt_pctmax inpt) = Inr (out_vmin r, out_vmax r)"
      and arr: "out_imgArray r = filter (\<lambda>x. x \<le> out_vmax r) (filter (\<lambda>x. x \<ge> out_vmin r) pop)"
      and h: "np_histogram (out_imgArray r) (inpt_nbins inpt) = Inr (out_Hvals r, out_Hedges r)"
      by (rule image_statistics_Inr)
    from pop obtain bg where bg: "background_value inpt img = Inr bg"
      and surv: "pop = filter (\<lambda>x. (truthy (inpt_background inpt) \<longrightarrow> PyFloat x \<noteq> bg) \<and>
                            (case inpt_vmin inpt of Some v \<Rightarrow> v = 0 \<or> v \<le> x | None \<Rightarrow> True) \<and>
                            (case inpt_vmax inpt of Some v \<Rightarrow> v = 0 \<or> x \<le> v | None \<Rightarrow> True))
                 (concat img)"
      by (rule population_survivors)
    from pct have ne: "pop \<noteq> []"
      and vmin: "out_vmin r = percentile1 pop (inpt_pctmin inpt)"
      and vmax: "out_vmax r = percentile1 pop (inpt_pctmax inpt)"
      by (simp_all add: np_percentile_Inr)
    have arr': "out_imgArray r = filter (\<lambda>x. out_vmin r \<le> x \<and> x \<le> out_vmax r) pop"
      by (simp add: arr conj_commute)
    have noop: "out_vmin r = Min (set pop) \<and> out_vmax r = Max (set pop) \<and> out_imgArray r = pop"
      if "inpt_pctmin inpt = 0 \<and> inpt_pctmax inpt = 100"
      using that ne vmin vmax arr full_range_filter [of pop]
      by (simp add: percentile1_0_Min percentile1_100_Max)
    from pop bg surv vmin vmax arr' h noop show ?thesis by blast
  qed
  moreover have "inpt_pctmin createParser = 0 \<and> inpt_pctmax createParser = 100"
    by (simp add: createParser_def)
  ultimately show ?thesis by blast
qed

theorem C3_percentile_stage_witness:
  "(\<exists>r. image_statistics True half_range two_of_four = Inr r \<and>
        population True half_range two_of_four = Inr [2, 4] \<and>
        out_vmin r = 2 \<and> out_vmin r = percentile1 [2, 4] 0 \<and>
        out_vmax r = 3 \<and> out_vmax r = percentile1 [2, 4] 50 \<and>
        out_imgArray r = [2] \<and>
        np_histogram [2] 2 = Inr (out_Hvals r, out_Hedges r)) \<and>
   (\<exists>r. image_statistics True (cmdParser [Arg_nbins 2]) two_of_four = Inr r \<and>
        out_vmin r = 2 \<and> out_vmax r = 5 \<and> out_imgArray r = [5, 2, 4, 5])"
proof -
  let ?r = "\<lparr> out_background = PyFloat 5,
           out_mask = Some (MaskArray [[True, False], [False, True]]),
           out_imgArray = [2], out_vmin = 2, out_vmax = 3, out_Hvals = [0, 1],
           out_Hedges = [3 / 2, 2, 5 / 2], out_Hcntrs = [7 / 4, 9 / 4] \<rparr>"
  let ?s = "\<lparr> out_background = PyNone, out_mask = None,
           out_imgArray = [5, 2, 4, 5], out_vmin = 2, out_vmax = 5, out_Hvals = [1, 3],
           out_Hedges = [2, 7 / 2, 5], out_Hcntrs = [11 / 4, 17 / 4] \<rparr>"
  have p: "inpt_pctmin half_range = 0" "inpt_pctmax half_range = 50" "inpt_nbins half_range = 2"
    by (simp_all add: half_range_def cmdParser_def createParser_def)
  have q: "inpt_pctmin (cmdParser [Arg_nbins 2]) = 0" "inpt_pctmax (cmdParser [Arg_nbins 2]) = 100"
    by (simp_all add: cmdParser_def createParser_def)
  from C3_percentile_stage [of True half_range two_of_four ?r] half_range_run
       half_range_population
  have a: "out_vmin ?r = percentile1 [2, 4] 0 \<and> out_vmax ?r = percentile1 [2, 4] 50 \<and>
           np_histogram [2] 2 = Inr (out_Hvals ?r, out_Hedges ?r)"
    by (auto simp: p)
  from C3_percentile_stage [of True "cmdParser [Arg_nbins 2]" two_of_four ?s] two_bins_run
  have b: "out_imgArray ?s = [5, 2, 4, 5]"
    by simp
  from a b half_range_run half_range_population two_bins_run show ?thesis
    by simp
qed


section \<open>Options are tested for truth\<close>

lemma background_value_not_auto:
  "inpt_background inpt \<noteq> PyStr ''auto'' \<Longrightarrow> background_value inpt img = Inr (inpt_background inpt)"
  by (simp add: background_value_def)

lemma falsy_not_auto: "\<not> truthy bg \<Longrightarrow> bg \<noteq> PyStr ''auto''"
  by (cases bg) auto

lemma population_falsy_background:
  assumes "\<not> truthy (inpt_background inpt)"
  shows "population elementwise inpt img = Inr (ignore_outliers inpt (concat img))"
  using assms falsy_not_auto [OF assms]
  by (simp add: population_def background_value_not_auto ignore_background_def)

lemma ignore_outliers_vmin_zero:
  "ignore_outliers (inpt\<lparr>inpt_vmin := Some 0\<rparr>) xs = ignore_outliers (inpt\<lparr>inpt_vmin := None\<rparr>) xs"
  by (simp add: ignore_outliers_def)

lemma ignore_outliers_vmax_zero:
  "ignore_outliers (inpt\<lparr>inpt_vmax := Some 0\<rparr>) xs = ignore_outliers (inpt\<lparr>inpt_vmax := None\<rparr>) xs"
  by (simp add: ignore_outliers_def)

lemma image_statistics_cong:
  assumes "inpt_background a = inpt_background b"
    and "\<And>xs. ignore_outliers a xs = ignore_outliers b xs"
    and "inpt_pctmin a = inpt_pctmin b"
    and "inpt_pctmax a = inpt_pctmax b"
    and "inpt_nbins a = inpt_nbins b"
  shows "image_statistics elementwise a img = image_statistics elementwise b img"
proof -
  have bv: "background_value a img = background_value b img"
    by (simp add: background_value_def assms(1))
  show ?thesis
    unfolding image_statistics_def bv assms ..
qed

lemma zero_options_run:
  "image_statistics True (cmdParser [Arg_vmin 0, Arg_vmax 0, Arg_background [], Arg_nbins 2]) zero_and_one =
     Inr \<lparr> out_background = PyStr [], out_mask = None,
           out_imgArray = [- 1, 0, 0, 1], out_vmin = - 1, out_vmax = 1, out_Hvals = [1, 3],
           out_Hedges = [- 1, 0, 1], out_Hcntrs = [- 1 / 2, 1 / 2] \<rparr>"
  by code_simp

text \<open>
  C10. The options are tested for truth, not for presence. A minimum bound of exactly 0
  gives the same statistics as no minimum bound, and a maximum bound of exactly 0 the
  same as no maximum bound. For every background value that is false (the number 0
  and the empty string are) no mask is built and the population is the whole image
  under the absolute bounds; the statistics are those of a run without the background
  option, apart from the recorded background value.
\<close>

theorem C10_truthiness:
  "image_statistics elementwise (inpt\<lparr>inpt_vmin := Some 0\<rparr>) img =
     image_statistics elementwise (inpt\<lparr>inpt_vmin := None\<rparr>) img \<and>
   image_statistics elementwise (inpt\<lparr>inpt_vmax := Some 0\<rparr>) img =
     image_statistics elementwise (inpt\<lparr>inpt_vmax := None\<rparr>) img \<and>
   \<not> truthy (PyFloat 0) \<and> \<not> truthy (PyStr []) \<and>
   (\<not> truthy bg \<longrightarrow>
      population elementwise (inpt\<lparr>inpt_background := bg\<rparr>) img =
        Inr (ignore_outliers inpt (concat img)) \<and>
      image_statistics elementwise (inpt\<lparr>inpt_background := bg\<rparr>) img =
        map_sum id (\<lambda>r. r\<lparr>out_background := bg\<rparr>)
          (image_statistics elementwise (inpt\<lparr>inpt_background := PyNone\<rparr>) img) \<and>
      (\<forall>r. image_statistics elementwise (inpt\<lparr>inpt_background := bg\<rparr>) img = Inr r \<longrightarrow>
           out_mask r = None))"
proof -
  have vmin: "image_statistics elementwise (inpt\<lparr>inpt_vmin := Some 0\<rparr>) img =
     image_statistics elementwise (inpt\<lparr>inpt_vmin := None\<rparr>) img"
    by (rule image_statistics_cong) (simp_all add: ignore_outliers_vmin_zero)
  have vmax: "image_statistics elementwise (inpt\<lparr>inpt_vmax := Some 0\<rparr>) img =
     image_statistics elementwise (inpt\<lparr>inpt_vmax := None\<rparr>) img"
    by (rule image_statistics_cong) (simp_all add: ignore_outliers_vmax_zero)
  have bg: "population elementwise (inpt\<lparr>inpt_background := bg\<rparr>) img =
        Inr (ignore_outliers inpt (concat img)) \<and>
      image_statistics elementwise (inpt\<lparr>inpt_background := bg\<rparr>) img =
        map_sum id (\<lambda>r. r\<lparr>out_background := bg\<rparr>)
          (image_statistics elementwise (inpt\<lparr>inpt_background := PyNone\<rparr>) img) \<and>
      (\<forall>r. image_statistics elementwise (inpt\<lparr>inpt_background := bg\<rparr>) img = Inr r \<longrightarrow>
           out_mask r = None)"
    if f: "\<not> truthy bg"
  proof -
    have o: "ignore_outliers (inpt\<lparr>inpt_background := b\<rparr>) xs = ignore_outliers inpt xs" for b xs
      by (simp add: ignore_outliers_def)
    have p: "population elementwise (inpt\<lparr>inpt_background := b\<rparr>) img =
               Inr (ignore_outliers inpt (concat img))" if "\<not> truthy b" for b
      using population_falsy_background [of "inpt\<lparr>inpt_background := b\<rparr>"] that
      by (simp add: o)
    have v: "background_value (inpt\<lparr>inpt_background := b\<rparr>) img = Inr b" if "\<not> truthy b" for b
      using falsy_not_auto [OF that] by (simp add: background_value_not_auto)
    have "image_statistics elementwise (inpt\<lparr>inpt_background := bg\<rparr>) img =
        map_sum id (\<lambda>r. r\<lparr>out_background := bg\<rparr>)
          (image_statistics elementwise (inpt\<lparr>inpt_background := PyNone\<rparr>) img)"
      using f
      by (simp add: image_statistics_population p v split: sum.splits prod.splits)
    moreover have "\<forall>r. image_statistics elementwise (inpt\<lparr>inpt_background := bg\<rparr>) img = Inr r \<longrightarrow>
           out_mask r = None"
      using f
      by (auto simp: image_statistics_population p v split: sum.splits prod.splits)
    ultimately show ?thesis using p [OF f] by blast
  qed
  from vmin vmax bg show ?thesis by simp
qed

theorem C10_truthiness_witness:
  "image_statistics True (createParser\<lparr>inpt_nbins := 2, inpt_vmin := Some 0\<rparr>) zero_and_one =
     image_statistics True (createParser\<lparr>inpt_nbins := 2, inpt_vmin := None\<rparr>) zero_and_one \<and>
   \<not> truthy (PyStr []) \<and>
   population True (createParser\<lparr>inpt_nbins := 2, inpt_background := PyStr []\<rparr>) zero_and_one =
     Inr [- 1, 0, 0, 1] \<and>
   population True (createParser\<lparr>inpt_nbins := 2, inpt_background := PyFloat 0\<rparr>) zero_and_one =
     Inr [- 1, 0, 0, 1] \<and>
   (\<exists>r. image_statistics True
           (cmdParser [Arg_vmin 0, Arg_vmax 0, Arg_background [], Arg_nbins 2]) zero_and_one = Inr r \<and>
        out_mask r = None \<and> out_imgArray r = [- 1, 0, 0, 1])"
proof -
  have i: "ignore_outliers (createParser\<lparr>inpt_nbins := 2\<rparr>) (concat zero_and_one) = [- 1, 0, 0, 1]"
    by (simp add: ignore_outliers_def createParser_def zero_and_one_def)
  from C10_truthiness [of True "createParser\<lparr>inpt_nbins := 2\<rparr>" zero_and_one "PyStr []"]
       C10_truthiness [of True "createParser\<lparr>inpt_nbins := 2\<rparr>" zero_and_one "PyFloat 0"]
       zero_options_run i
  show ?thesis by simp
qed


section \<open>Automatic background\<close>

lemma mode_fold:
  assumes "fold (\<lambda>score (oldmostfreq, oldcounts).
                   (let counts = count_list a score
                    in if counts > oldcounts then (score, counts)
                       else (oldmostfreq, oldcounts))) ss (m0, c0) = (m, c)"
  shows "c0 \<le> c \<and> (\<forall>s\<in>set ss. count_list a s \<le> c) \<and>
         ((m, c) = (m0, c0) \<or> m \<in> set ss \<and> c = count_list a m)"
  using assms
proof (induction ss arbitrary: m0 c0)
  case Nil
  then show ?case by simp
next
  case (Cons s ss)
  show ?case
  proof (cases "count_list a s > c0")
    case True
    with Cons.prems have "fold (\<lambda>score (oldmostfreq, oldcounts).
                   (let counts = count_list a score
                    in if counts > oldcounts then (score, counts)
                       else (oldmostfreq, oldcounts))) ss (s, count_list a s) = (m, c)"
      by simp
    from Cons.IH [OF this] True show ?thesis by auto
  next
    case False
    with Cons.prems have "fold (\<lambda>score (oldmostfreq, oldcounts).
                   (let counts = count_list a score
                    in if counts > oldcounts then (score, counts)
                       else (oldmostfreq, oldcounts))) ss (m0, c0) = (m, c)"
      by simp
    from Cons.IH [OF this] False show ?thesis by auto
  qed
qed

lemma scipy_mode_most_frequent:
  assumes "a \<noteq> []"
  obtains m where "scipy_mode a = Inr m" and "m \<in> set a"
    and "\<And>v. count_list a v \<le> count_list a m"
proof -
  obtain m c where f: "fold (\<lambda>score (oldmostfreq, oldcounts).
                   (let counts = count_list a score
                    in if counts > oldcounts then (score, counts)
                       else (oldmostfreq, oldcounts))) (sort (remdups a)) (0, 0) = (m, c)"
    by (meson surj_pair)
  note inv = mode_fold [OF f]
  from assms have "hd a \<in> set a" by simp
  then have "count_list a (hd a) \<noteq> 0" by (simp add: count_list_0_iff)
  then have "0 < count_list a (hd a)" by simp
  moreover from inv \<open>hd a \<in> set a\<close> have "count_list a (hd a) \<le> c" by simp
  ultimately have "0 < c" by linarith
  with inv have m: "m \<in> set a" and c: "c = count_list a m" by auto
  have most: "count_list a v \<le> count_list a m" for v
  proof (cases "v \<in> set a")
    case True
    with inv c show ?thesis by simp
  next
    case False
    then show ?thesis by (simp add: count_list_0_iff)
  qed
  from assms f have "scipy_mode a = Inr m" by (simp add: scipy_mode_def)
  from this m most show ?thesis by (rule that)
qed

lemma edgeValues_border:
  assumes "img \<noteq> []" and "\<forall>row\<in>set img. length row = N" and "0 < N"
  shows "edgeValues img = Inr (hd img @ last img @ map hd img @ map last img)"
    and "hd img @ last img @ map hd img @ map last img \<noteq> []"
    and "\<And>v. v \<in> set (hd img @ last img @ map hd img @ map last img) \<Longrightarrow>
           \<exists>i j. i < length img \<and> j < N \<and>
                 (i = 0 \<or> i = length img - 1 \<or> j = 0 \<or> j = N - 1) \<and> v = img ! i ! j"
proof -
  let ?ev = "hd img @ last img @ map hd img @ map last img"
  from assms have h: "hd img \<in> set img" by simp
  with assms(2) have "length (hd img) = N" by blast
  with assms(3) have hne: "hd img \<noteq> []" by auto
  with assms(1) have ev: "edgeValues img = Inr ?ev" by (simp add: edgeValues_def)
  have row: "length (img ! i) = N" if "i < length img" for i
    using assms(2) that by simp
  have hd0: "hd img = img ! 0" using assms(1) by (simp add: hd_conv_nth)
  have lastM: "last img = img ! (length img - 1)" using assms(1) by (simp add: last_conv_nth)
  have M: "0 < length img" using assms(1) by simp
  have border: "\<exists>i j. i < length img \<and> j < N \<and>
                 (i = 0 \<or> i = length img - 1 \<or> j = 0 \<or> j = N - 1) \<and> v = img ! i ! j"
    if v: "v \<in> set ?ev" for v
  proof -
    from v consider "v \<in> set (img ! 0)" | "v \<in> set (img ! (length img - 1))"
      | "v \<in> set (map hd img)" | "v \<in> set (map last img)"
      by (auto simp: hd0 lastM)
    then show ?thesis
    proof cases
      case 1
      then obtain j where "j < length (img ! 0)" "v = img ! 0 ! j"
        unfolding in_set_conv_nth by blast
      with row [of 0] M show ?thesis by auto
    next
      case 2
      then obtain j where "j < length (img ! (length img - 1))" "v = img ! (length img - 1) ! j"
        unfolding in_set_conv_nth by blast
      with row [of "length img - 1"] M show ?thesis
        by (intro exI [of _ "length img - 1"] exI [of _ j]) simp
    next
      case 3
      then obtain i where i: "i < length img" "v = hd (img ! i)"
        unfolding in_set_conv_nth by auto
      with row [of i] assms(3) have "img ! i \<noteq> []" by auto
      with i have "v = img ! i ! 0" by (simp add: hd_conv_nth)
      with i assms(3) show ?thesis by blast
    next
      case 4
      then obtain i where i: "i < length img" "v = last (img ! i)"
        unfolding in_set_conv_nth by auto
      with row [of i] assms(3) have "img ! i \<noteq> []" by auto
      with i row [of i] have "v = img ! i ! (N - 1)" by (simp add: last_conv_nth)
      with i assms(3) show ?thesis
        by (intro exI [of _ i] exI [of _ "N - 1"]) simp
    qed
  qed
  from hne show "?ev \<noteq> []" by simp
  from ev show "edgeValues img = Inr ?ev" .
  from border show "\<And>v. v \<in> set ?ev \<Longrightarrow>
           \<exists>i j. i < length img \<and> j < N \<and>
                 (i = 0 \<or> i = length img - 1 \<or> j = 0 \<or> j = N - 1) \<and> v = img ! i ! j" .
qed

text \<open>
  C5. With the background option \<open>auto\<close> on an array with at least one row and one
  column, the background is a most frequent value among the edge values: the first row,
  the last row, the first column and the last column taken together. If every border
  sample of the array has the same value, 9 for example, that value is the background,
  whatever the interior.
\<close>

theorem C5_auto_background:
  "inpt_background inpt = PyStr ''auto'' \<and> img \<noteq> [] \<and> (\<forall>row\<in>set img. length row = N) \<and> 0 < N \<longrightarrow>
     (\<exists>b ev. edgeValues img = Inr ev \<and>
             ev = hd img @ last img @ map hd img @ map last img \<and>
             background_value inpt img = Inr (PyFloat b) \<and>
             b \<in> set ev \<and> (\<forall>v. count_list ev v \<le> count_list ev b) \<and>
             ((\<forall>i < length img. \<forall>j < N.
                 i = 0 \<or> i = length img - 1 \<or> j = 0 \<or> j = N - 1 \<longrightarrow> img ! i ! j = c) \<longrightarrow>
              b = c))"
proof
  assume a: "inpt_background inpt = PyStr ''auto'' \<and> img \<noteq> [] \<and>
             (\<forall>row\<in>set img. length row = N) \<and> 0 < N"
  then have s: "img \<noteq> []" "\<forall>row\<in>set img. length row = N" "0 < N"
    by simp_all
  define ev where "ev = hd img @ last img @ map hd img @ map last img"
  note cat = ev_def
  from edgeValues_border [OF s] have ev: "edgeValues img = Inr ev"
    and ne: "ev \<noteq> []"
    and border: "\<And>v. v \<in> set ev \<Longrightarrow>
           \<exists>i j. i < length img \<and> j < N \<and>
                 (i = 0 \<or> i = length img - 1 \<or> j = 0 \<or> j = N - 1) \<and> v = img ! i ! j"
    unfolding ev_def by blast+
  from ne obtain b where b: "scipy_mode ev = Inr b" "b \<in> set ev"
    and most: "\<And>v. count_list ev v \<le> count_list ev b"
    using scipy_mode_most_frequent [OF ne] by blast
  from a ev b have bv: "background_value inpt img = Inr (PyFloat b)"
    by (simp add: background_value_def)
  have "b = c" if u: "\<forall>i < length img. \<forall>j < N.
                 i = 0 \<or> i = length img - 1 \<or> j = 0 \<or> j = N - 1 \<longrightarrow> img ! i ! j = c"
  proof -
    from border [OF b(2)] obtain i j where "i < length img" "j < N"
      "i = 0 \<or> i = length img - 1 \<or> j = 0 \<or> j = N - 1" "b = img ! i ! j"
      by blast
    with u show ?thesis by blast
  qed
  with ev cat bv b(2) most
  show "\<exists>b ev. edgeValues img = Inr ev \<and>
             ev = hd img @ last img @ map hd img @ map last img \<and>
             background_value inpt img = Inr (PyFloat b) \<and>
             b \<in> set ev \<and> (\<forall>v. count_list ev v \<le> count_list ev b) \<and>
             ((\<forall>i < length img. \<forall>j < N.
                 i = 0 \<or> i = length img - 1 \<or> j = 0 \<or> j = N - 1 \<longrightarrow> img ! i ! j = c) \<longrightarrow>
              b = c)"
    by blast
qed

lemma framed_border:
  "\<forall>i < length framed. \<forall>j < 3.
     i = 0 \<or> i = length framed - 1 \<or> j = 0 \<or> j = 3 - 1 \<longrightarrow> framed ! i ! j = 9"
  by (auto simp: framed_def less_Suc_eq numeral_3_eq_3 numeral_eq_Suc)

theorem C5_auto_background_witness:
  "inpt_background (cmdParser [Arg_background ''auto'']) = PyStr ''auto'' \<and>
   edgeValues framed = Inr [9, 9, 9, 9, 9, 9, 9, 9, 9, 9, 9, 9, 9, 9] \<and>
   background_value (cmdParser [Arg_background ''auto'']) framed = Inr (PyFloat 9)"
proof -
  have o: "inpt_background (cmdParser [Arg_background ''auto'']) = PyStr ''auto''"
    by (simp add: cmdParser_def)
  have r: "framed \<noteq> []" "\<forall>row\<in>set framed. length row = 3"
    by (simp_all add: framed_def)
  have e: "edgeValues framed = Inr [9, 9, 9, 9, 9, 9, 9, 9, 9, 9, 9, 9, 9, 9]"
    by (simp add: edgeValues_def framed_def)
  from C5_auto_background [of "cmdParser [Arg_background ''auto'']" framed 3 9] o r framed_border
  have "background_value (cmdParser [Arg_background ''auto'']) framed = Inr (PyFloat 9)"
    by auto
  with o e show ?thesis by simp
qed


section \<open>Empty populations\<close>

lemma background_value_error: "background_value inpt img = Inl e \<Longrightarrow> e = IndexError"
  by (auto simp: background_value_def edgeValues_def scipy_mode_def split: if_splits sum.splits)

lemma ignore_background_error: "ignore_background img m = Inl e \<Longrightarrow> e = AttributeError"
  by (auto simp: ignore_background_def Let_def split: option.splits np_mask.splits)

lemma population_error:
  "population elementwise inpt img = Inl e \<Longrightarrow> e = IndexError \<or> e = AttributeError"
  by (auto simp: population_def Let_def split: sum.splits
           dest: background_value_error ignore_background_error)

lemma image_statistics_error:
  assumes "image_statistics elementwise inpt img = Inl e"
  shows "e = IndexError \<or> e = AttributeError \<or> e = ValueError"
proof (cases "population elementwise inpt img")
  case (Inl e')
  with assms have "e = e'" by (simp add: image_statistics_population)
  with Inl population_error show ?thesis by blast
next
  case (Inr pop)
  show ?thesis
  proof (cases "np_percentile pop (inpt_pctmin inpt, inpt_pctmax inpt)")
    case (Inl e')
    with assms Inr have "e = e'" by (simp add: image_statistics_population)
    with Inl np_percentile_error show ?thesis by blast
  next
    case p: (Inr v)
    obtain vmin vmax where v: "v = (vmin, vmax)" by (cases v)
    from assms Inr p v
    have "np_histogram (filter (\<lambda>x. x \<le> vmax) (filter (\<lambda>x. x \<ge> vmin) pop)) (inpt_nbins inpt) = Inl e"
      by (simp add: image_statistics_population split: sum.splits prod.splits)
    with np_histogram_error show ?thesis by blast
  qed
qed

lemma population_all_background:
  assumes "truthy (inpt_background inpt)"
    and "background_value inpt img = Inr (PyFloat v)"
    and "\<forall>x\<in>set (concat img). x = v"
  shows "population elementwise inpt img = Inr []"
proof -
  from assms(3) have "filter (\<lambda>x. x \<noteq> v) (concat img) = []"
    by (simp add: filter_empty_conv)
  with assms(1,2) show ?thesis
    by (simp add: population_def ignore_background_np_equal ignore_outliers_def
             split: option.splits)
qed

lemma image_statistics_empty_population:
  assumes "population elementwise inpt img = Inr []"
    and "0 \<le> inpt_pctmin inpt" "inpt_pctmin inpt \<le> 100"
    and "0 \<le> inpt_pctmax inpt" "inpt_pctmax inpt \<le> 100"
  shows "image_statistics elementwise inpt img = Inl IndexError"
  using assms by (simp add: image_statistics_population np_percentile_empty)

lemma image_statistics_emptied_by_percentiles:
  assumes pop: "population elementwise inpt img = Inr pop" and ne: "pop \<noteq> []"
    and range: "0 \<le> inpt_pctmin inpt" "inpt_pctmin inpt \<le> 100"
               "0 \<le> inpt_pctmax inpt" "inpt_pctmax inpt \<le> 100"
    and bins: "1 \<le> inpt_nbins inpt"
    and none: "filter (\<lambda>x. percentile1 pop (inpt_pctmin inpt) \<le> x \<and>
                           x \<le> percentile1 pop (inpt_pctmax inpt)) pop = []"
  shows "\<exists>r. image_statistics elementwise inpt img = Inr r \<and> out_imgArray r = [] \<and>
             (\<forall>k\<in>set (out_Hvals r). k = 0)"
proof -
  from ne range have p: "np_percentile pop (inpt_pctmin inpt, inpt_pctmax inpt) =
      Inr (percentile1 pop (inpt_pctmin inpt), percentile1 pop (inpt_pctmax inpt))"
    by (simp add: np_percentile_Inr)
  from none have f: "filter (\<lambda>x. x \<le> percentile1 pop (inpt_pctmax inpt))
                       (filter (\<lambda>x. x \<ge> percentile1 pop (inpt_pctmin inpt)) pop) = []"
    by (simp add: conj_commute)
  from np_histogram_total [OF bins] obtain counts edges
    where h: "np_histogram [] (inpt_nbins inpt) = Inr (counts, edges)" by blast
  from np_histogram_Inr(1) [OF h] have "\<forall>k\<in>set counts. k = 0" by simp
  with pop p f h show ?thesis
    by (simp add: image_statistics_population)
qed

lemma uniform_population: "population True (cmdParser [Arg_background ''auto'']) uniform = Inr []"
  by code_simp

lemma one_two_population: "population True (cmdParser [Arg_pctmin 100, Arg_pctmax 0]) one_two = Inr [1, 2]"
  by code_simp

lemma one_two_percentiles: "percentile1 [1, 2] 100 = 2" "percentile1 [1, 2] 0 = 1"
  by code_simp+

text \<open>
  C8. The claim is that a population emptied by any filtering stage makes the run raise
  \<open>EmptyPopulationError\<close>. With \<open>--pctmin 100 --pctmax 0\<close> on the row \<open>[1, 2]\<close> the
  percentiles are \<open>vmin = 2\<close> and \<open>vmax = 1\<close>, the re-filtering leaves no sample, and the
  histogram is computed without any error. With \<open>--background auto\<close> on an array whose
  samples all equal the background the run fails, but with numpy's \<open>IndexError\<close>.
\<close>

theorem C8_empty_without_EmptyPopulationError:
  "(\<exists>r. image_statistics True (cmdParser [Arg_pctmin 100, Arg_pctmax 0]) one_two = Inr r \<and>
        out_vmin r = 2 \<and> out_vmax r = 1 \<and> out_imgArray r = []) \<and>
   image_statistics True (cmdParser [Arg_background ''auto'']) uniform = Inl IndexError \<and>
   image_statistics True (cmdParser [Arg_background ''auto'']) uniform \<noteq> Inl EmptyPopulationError"
proof -
  have "map_sum id (\<lambda>r. (out_vmin r, out_vmax r, out_imgArray r))
          (image_statistics True (cmdParser [Arg_pctmin 100, Arg_pctmax 0]) one_two) =
        Inr (2, 1, [])"
    by code_simp
  then have "\<exists>r. image_statistics True (cmdParser [Arg_pctmin 100, Arg_pctmax 0]) one_two = Inr r \<and>
        out_vmin r = 2 \<and> out_vmax r = 1 \<and> out_imgArray r = []"
    by (cases "image_statistics True (cmdParser [Arg_pctmin 100, Arg_pctmax 0]) one_two") auto
  moreover have "image_statistics True (cmdParser [Arg_background ''auto'']) uniform = Inl IndexError"
    by code_simp
  ultimately show ?thesis by simp
qed

text \<open>
  C8, as amended. With both percentages within \<open>[0, 100]\<close>: when background masking
  and the absolute bounds leave no sample, the run fails at the percentile computation
  with \<open>IndexError\<close>; this is the case when the background option is true and the
  resolved numeric background equals every sample. No run raises
  \<open>EmptyPopulationError\<close>. When the population is not empty, the bin count is positive and
  the percentile re-filtering leaves no sample, no error is raised: the statistics are
  returned with an empty final population and a histogram whose counts are all zero.
\<close>

theorem C8_empty_population:
  "(population elementwise inpt img = Inr [] \<and>
    0 \<le> inpt_pctmin inpt \<and> inpt_pctmin inpt \<le> 100 \<and>
    0 \<le> inpt_pctmax inpt \<and> inpt_pctmax inpt \<le> 100 \<longrightarrow>
      image_statistics elementwise inpt img = Inl IndexError) \<and>
   (truthy (inpt_background inpt) \<and> background_value inpt img = Inr (PyFloat v) \<and>
    (\<forall>x\<in>set (concat img). x = v) \<and>
    0 \<le> inpt_pctmin inpt \<and> inpt_pctmin inpt \<le> 100 \<and>
    0 \<le> inpt_pctmax inpt \<and> inpt_pctmax inpt \<le> 100 \<longrightarrow>
      image_statistics elementwise inpt img = Inl IndexError) \<and>
   image_statistics elementwise inpt img \<noteq> Inl EmptyPopulationError \<and>
   (population elementwise inpt img = Inr pop \<and> pop \<noteq> [] \<and>
    0 \<le> inpt_pctmin inpt \<and> inpt_pctmin inpt \<le> 100 \<and>
    0 \<le> inpt_pctmax inpt \<and> inpt_pctmax inpt \<le> 100 \<and>
    1 \<le> inpt_nbins inpt \<and>
    filter (\<lambda>x. percentile1 pop (inpt_pctmin inpt) \<le> x \<and>
                x \<le> percentile1 pop (inpt_pctmax inpt)) pop = [] \<longrightarrow>
      (\<exists>r. image_statistics elementwise inpt img = Inr r \<and> out_imgArray r = [] \<and>
           (\<forall>k\<in>set (out_Hvals r). k = 0)))"
proof -
  have a: "population elementwise inpt img = Inr [] \<and>
    0 \<le> inpt_pctmin inpt \<and> inpt_pctmin inpt \<le> 100 \<and>
    0 \<le> inpt_pctmax inpt \<and> inpt_pctmax inpt \<le> 100 \<longrightarrow>
      image_statistics elementwise inpt img = Inl IndexError"
    using image_statistics_empty_population by blast
  have b: "truthy (inpt_background inpt) \<and> background_value inpt img = Inr (PyFloat v) \<and>
    (\<forall>x\<in>set (concat img). x = v) \<and>
    0 \<le> inpt_pctmin inpt \<and> inpt_pctmin inpt \<le> 100 \<and>
    0 \<le> inpt_pctmax inpt \<and> inpt_pctmax inpt \<le> 100 \<longrightarrow>
      image_statistics elementwise inpt img = Inl IndexError"
    using image_statistics_empty_population [OF population_all_background] by blast
  have c: "image_statistics elementwise inpt img \<noteq> Inl EmptyPopulationError"
    using image_statistics_error [of elementwise inpt img EmptyPopulationError] by auto
  have d: "population elementwise inpt img = Inr pop \<and> pop \<noteq> [] \<and>
    0 \<le> inpt_pctmin inpt \<and> inpt_pctmin inpt \<le> 100 \<and>
    0 \<le> inpt_pctmax inpt \<and> inpt_pctmax inpt \<le> 100 \<and>
    1 \<le> inpt_nbins inpt \<and>
    filter (\<lambda>x. percentile1 pop (inpt_pctmin inpt) \<le> x \<and>
                x \<le> percentile1 pop (inpt_pctmax inpt)) pop = [] \<longrightarrow>
      (\<exists>r. image_statistics elementwise inpt img = Inr r \<and> out_imgArray r = [] \<and>
           (\<forall>k\<in>set (out_Hvals r). k = 0))"
    using image_statistics_emptied_by_percentiles [of elementwise inpt img pop] by blast
  from a b c d show ?thesis by blast
qed

theorem C8_empty_population_witness:
  "population True (cmdParser [Arg_background ''auto'']) uniform = Inr [] \<and>
   background_value (cmdParser [Arg_background ''auto'']) uniform = Inr (PyFloat 7) \<and>
   image_statistics True (cmdParser [Arg_background ''auto'']) uniform = Inl IndexError \<and>
   population True (cmdParser [Arg_pctmin 100, Arg_pctmax 0]) one_two = Inr [1, 2] \<and>
   (\<exists>r. image_statistics True (cmdParser [Arg_pctmin 100, Arg_pctmax 0]) one_two = Inr r \<and>
        out_imgArray r = [] \<and> sum_list (out_Hvals r) = 0)"
proof -
  let ?auto = "cmdParser [Arg_background ''auto'']"
  let ?inv = "cmdParser [Arg_pctmin 100, Arg_pctmax 0]"
  have o: "truthy (inpt_background ?auto)" "inpt_pctmin ?auto = 0" "inpt_pctmax ?auto = 100"
    by (simp_all add: cmdParser_def createParser_def)
  have bv: "background_value ?auto uniform = Inr (PyFloat 7)"
    by code_simp
  have u: "\<forall>x\<in>set (concat uniform). x = 7"
    by (simp add: uniform_def)
  have i: "inpt_pctmin ?inv = 100" "inpt_pctmax ?inv = 0" "inpt_nbins ?inv = 50"
    by (simp_all add: cmdParser_def createParser_def)
  from C8_empty_population [of True ?auto uniform 7 "[1, 2]"] uniform_population o
  have 1: "image_statistics True ?auto uniform = Inl IndexError"
    by simp
  from C8_empty_population [of True ?auto uniform 7 "[1, 2]"] o bv u
  have 2: "image_statistics True ?auto uniform = Inl IndexError"
    by simp
  from C8_empty_population [of True ?inv one_two 7 "[1, 2]"] one_two_population i
       one_two_percentiles
  have 3: "\<exists>r. image_statistics True ?inv one_two = Inr r \<and> out_imgArray r = [] \<and>
             (\<forall>k\<in>set (out_Hvals r). k = 0)"
    by simp
  then have "\<exists>r. image_statistics True ?inv one_two = Inr r \<and> out_imgArray r = [] \<and>
             sum_list (out_Hvals r) = 0"
    by auto
  with 1 2 uniform_population bv one_two_population show ?thesis by simp
qed

section \<open>Literal background\<close>

text \<open>
  The statistics are returned whenever the population is not empty, both percentages lie
  within \<open>[0, 100]\<close> and the bin count is positive.
\<close>

lemma image_statistics_succeeds:
  assumes pop: "population elementwise inpt img = Inr pop" and ne: "pop \<noteq> []"
    and range: "0 \<le> inpt_pctmin inpt" "inpt_pctmin inpt \<le> 100"
               "0 \<le> inpt_pctmax inpt" "inpt_pctmax inpt \<le> 100"
    and bins: "1 \<le> inpt_nbins inpt"
  shows "\<exists>r. image_statistics elementwise inpt img = Inr r \<and>
             out_vmin r = percentile1 pop (inpt_pctmin inpt) \<and>
             out_vmax r = percentile1 pop (inpt_pctmax inpt) \<and>
             out_imgArray r = filter (\<lambda>x. x \<le> percentile1 pop (inpt_pctmax inpt))
                                (filter (\<lambda>x. x \<ge> percentile1 pop (inpt_pctmin inpt)) pop) \<and>
             np_histogram (out_imgArray r) (inpt_nbins inpt) = Inr (out_Hvals r, out_Hedges r)"
proof -
  from ne range have p: "np_percentile pop (inpt_pctmin inpt, inpt_pctmax inpt) =
      Inr (percentile1 pop (inpt_pctmin inpt), percentile1 pop (inpt_pctmax inpt))"
    by (simp add: np_percentile_Inr)
  from np_histogram_total [OF bins] obtain counts edges
    where h: "np_histogram (filter (\<lambda>x. x \<le> percentile1 pop (inpt_pctmax inpt))
                (filter (\<lambda>x. x \<ge> percentile1 pop (inpt_pctmin inpt)) pop)) (inpt_nbins inpt) =
              Inr (counts, edges)"
    by blast
  from pop p h show ?thesis
    by (simp add: image_statistics_population)
qed

text \<open>
  Had the background been the number 5, the population of the 3-by-3 array would be the
  single sample 1, both bounds would be 1, and the one count of the histogram would sit in
  bin 25 of the 50 bins between 0.5 and 1.5.
\<close>

lemma single_sample_histogram:
  "np_histogram [1] 50 =
     Inr (replicate 25 0 @ [1] @ replicate 24 0, map (\<lambda>i. 1 / 2 + real i / 50) [0..<51])"
  by code_simp

lemma numeric_background_centre_sample:
  "\<exists>r. image_statistics elementwise (createParser\<lparr>inpt_background := PyFloat 5\<rparr>) centre_sample = Inr r \<and>
       out_imgArray r = [1] \<and> out_vmin r = 1 \<and> out_vmax r = 1 \<and>
       out_Hvals r = replicate 25 0 @ [1] @ replicate 24 0"
proof -
  let ?inpt = "createParser\<lparr>inpt_background := PyFloat 5\<rparr>"
  have pop: "population elementwise ?inpt centre_sample = Inr [1]"
    by (simp add: population_def background_value_def createParser_def
                  ignore_background_np_equal ignore_outliers_def centre_sample_def)
  have o: "inpt_pctmin ?inpt = 0" "inpt_pctmax ?inpt = 100" "inpt_nbins ?inpt = 50"
    by (simp_all add: createParser_def)
  have p: "percentile1 [1] 0 = 1" "percentile1 [1] 100 = 1"
    by (simp_all add: percentile1_def)
  from image_statistics_succeeds [OF pop] o p single_sample_histogram
  show ?thesis by auto
qed

text \<open>
  C4. The claim is that the literal background 5 leaves exactly the sample 1 of the
  3-by-3 array. The command line delivers the background as the string \<open>5\<close> (line 32
  declares no type), and no sample equals a string. Where numpy compares elementwise
  nothing is masked: the population is all nine samples, with \<open>vmin = 1\<close> and
  \<open>vmax = 5\<close>. Where numpy answers with a scalar, line 108 raises \<open>AttributeError\<close>.
\<close>

theorem C4_string_background_masks_nothing:
  "inpt_background (cmdParser [Arg_background ''5'']) = PyStr ''5'' \<and>
   population True (cmdParser [Arg_background ''5'']) centre_sample =
     Inr [5, 5, 5, 5, 1, 5, 5, 5, 5] \<and>
   (\<exists>r. image_statistics True (cmdParser [Arg_background ''5'']) centre_sample = Inr r \<and>
        out_imgArray r = [5, 5, 5, 5, 1, 5, 5, 5, 5] \<and> out_vmin r = 1 \<and> out_vmax r = 5) \<and>
   image_statistics False (cmdParser [Arg_background ''5'']) centre_sample = Inl AttributeError"
proof -
  let ?inpt = "cmdParser [Arg_background ''5'']"
  have o: "inpt_background ?inpt = PyStr ''5''" "inpt_pctmin ?inpt = 0" "inpt_pctmax ?inpt = 100"
    "inpt_nbins ?inpt = 50"
    by (simp_all add: cmdParser_def createParser_def)
  have pop: "population True ?inpt centre_sample = Inr [5, 5, 5, 5, 1, 5, 5, 5, 5]"
    by code_simp
  have p: "percentile1 [5, 5, 5, 5, 1, 5, 5, 5, 5] 0 = 1"
          "percentile1 [5, 5, 5, 5, 1, 5, 5, 5, 5] 100 = 5"
    by code_simp+
  from image_statistics_succeeds [OF pop] o p
  have "\<exists>r. image_statistics True ?inpt centre_sample = Inr r \<and>
        out_imgArray r = [5, 5, 5, 5, 1, 5, 5, 5, 5] \<and> out_vmin r = 1 \<and> out_vmax r = 5"
    by auto
  moreover have "image_statistics False ?inpt centre_sample = Inl AttributeError"
    by code_simp
  ultimately show ?thesis using o pop by simp
qed

section \<open>Complex samples\<close>

lemma no_sample_map: "no_sample (map (map f) rows) = no_sample rows"
  by (cases rows) (simp_all add: no_sample_def)

text \<open>
  For single-precision complex samples the statistics are those of the phase, and the
  magnitude is returned as it was computed from the band, whatever the options.
\<close>

lemma complex64_statistics:
  "MapShow_main elementwise inpt (Complex64Array c) =
     (if no_sample c then Inl IndexError
      else case image_statistics elementwise inpt (map (map np_angle) c) of
             Inl e \<Rightarrow> Inl e
           | Inr s \<Rightarrow> Inr (s, Some (map (map np_abs) c)))"
  by (simp add: MapShow_main_def complex_decomposition_def Let_def)

lemma real_statistics:
  "MapShow_main elementwise inpt (RealArray a) =
     (if no_sample a then Inl IndexError
      else case image_statistics elementwise inpt a of
             Inl e \<Rightarrow> Inl e
           | Inr s \<Rightarrow> Inr (s, None))"
  by (simp add: MapShow_main_def complex_decomposition_def Let_def)

text \<open>
  C7. The claim is that every complex input is replaced by its phase, with the
  magnitude kept aside. The test of line 78 is for \<open>numpy.complex64\<close> only: the 1-by-1
  band holding the double-precision complex sample 1 stays complex and no magnitude is
  assigned, while the same sample in single precision is replaced by the phase 0 with
  magnitude 1.
\<close>

theorem C7_complex128_not_decomposed:
  "complex_decomposition (Complex128Array [[1]]) = Inr (Complex128Array [[1]], None) \<and>
   complex_decomposition (Complex64Array [[1]]) = Inr (RealArray [[0]], Some [[1]])"
  by (simp add: complex_decomposition_def no_sample_def np_angle_def arctan2_def np_abs_def)

end
